theory Spec2Isabelle
  imports Complex_Main
begin

section \<open>Lane boundary tracking: the notebook's lane search, fit and measurements\<close>

text \<open>
  The development embeds the functions of section 5 and 6 of the notebook
  (\<^verbatim>\<open>windowHistograms\<close>, \<^verbatim>\<open>searchAroundPoly\<close>, \<^verbatim>\<open>fit_poly\<close>,
  \<^verbatim>\<open>measure_curvature_real\<close>, \<^verbatim>\<open>detectLane\<close>) and the state update of
  \<^verbatim>\<open>process_image\<close>.

  Conventions of the embedding:
  \<^item> numpy's float64 values are idealised as the reals; in the curvature, where the
    source divides by a float zero or leaves the range of float64 (numpy answers with
    \<open>inf\<close>), the non-finite branch is written out;
  \<^item> \<^verbatim>\<open>np.polyfit\<close> and \<^verbatim>\<open>cv2.fillPoly\<close> are library functions and are
    parameters of the model;
  \<^item> numpy's integer arrays of pixel coordinates are lists of \<open>int\<close>;
  \<^item> every exception the source can raise is a value \<open>Inl e\<close> of the result type.
\<close>

subsection \<open>Errors and images\<close>

datatype error = TypeError | ValueError | NameError | SolverError | IndexError

type_synonym 'a result = "error + 'a"

text \<open>
  A binary frame is a 2-D numpy array: its shape \<open>(height, width)\<close> and the value at
  row \<open>y\<close>, column \<open>x\<close> (\<^verbatim>\<open>image[y, x]\<close>). Only positions inside the shape are read.
\<close>

record image =
  height :: nat
  width :: nat
  pix :: "nat \<Rightarrow> nat \<Rightarrow> nat"

subsection \<open>Cold start: \<^verbatim>\<open>windowHistograms\<close>\<close>

text \<open>\<^verbatim>\<open>np.sum(image[image.shape[0]//2:,:], axis=0)\<close>\<close>

definition histogram :: "image \<Rightarrow> nat list" where
  "histogram img =
     map (\<lambda>x. sum_list (map (\<lambda>y. pix img y x) [height img div 2 ..< height img]))
       [0 ..< width img]"

text \<open>
  \<^verbatim>\<open>np.argmax\<close>: the index of the first occurrence of the maximum; on an empty array
  numpy raises ValueError.
\<close>

fun argmax_aux :: "nat \<Rightarrow> nat \<Rightarrow> nat \<Rightarrow> nat list \<Rightarrow> nat" where
  "argmax_aux bi bv i [] = bi"
| "argmax_aux bi bv i (v # vs) =
     (if bv < v then argmax_aux i v (Suc i) vs else argmax_aux bi bv (Suc i) vs)"

definition argmax :: "nat list \<Rightarrow> nat result" where
  "argmax vs = (case vs of [] \<Rightarrow> Inl ValueError | v # rest \<Rightarrow> Inr (argmax_aux 0 v 1 rest))"

text \<open>
  The first lines of \<^verbatim>\<open>windowHistograms\<close>: the histogram, its midpoint and the two
  bases \<^verbatim>\<open>leftx_base\<close>, \<^verbatim>\<open>rightx_base\<close>.
\<close>

definition histogram_bases :: "image \<Rightarrow> (nat \<times> nat) result" where
  "histogram_bases img =
     (let hist = histogram img;
          midpoint = length hist div 2
      in case argmax (take midpoint hist) of
           Inl e \<Rightarrow> Inl e
         | Inr leftx_base \<Rightarrow>
             (case argmax (drop midpoint hist) of
                Inl e \<Rightarrow> Inl e
              | Inr r \<Rightarrow> Inr (leftx_base, r + midpoint)))"

text \<open>
  \<^verbatim>\<open>image.nonzero()\<close>: the positions of the non-zero entries in row-major order, as
  pairs (row, column); \<^verbatim>\<open>nonzeroy\<close> and \<^verbatim>\<open>nonzerox\<close> are its two components.
\<close>

definition nonzero :: "image \<Rightarrow> (nat \<times> nat) list" where
  "nonzero img =
     concat (map (\<lambda>y. map (\<lambda>x. (y, x)) (filter (\<lambda>x. pix img y x \<noteq> 0) [0 ..< width img]))
       [0 ..< height img])"

definition nonzeroy_of :: "image \<Rightarrow> int list" where
  "nonzeroy_of img = map (\<lambda>p. int (fst p)) (nonzero img)"

definition nonzerox_of :: "image \<Rightarrow> int list" where
  "nonzerox_of img = map (\<lambda>p. int (snd p)) (nonzero img)"

definition nwindows :: nat where "nwindows = 9"
definition window_margin :: int where "window_margin = 80"
definition minpix :: nat where "minpix = 30"

text \<open>
  The indices of the non-zero pixels inside one window:
  \<^verbatim>\<open>((nonzeroy < win_y_high) & (nonzeroy >= win_y_low) & (nonzerox < win_x_high) &
   (nonzerox >= win_x_low)).nonzero()[0]\<close>.
  For the right side the source writes \<^verbatim>\<open>*\<close> for the second \<^verbatim>\<open>&\<close>; on boolean arrays the
  product is the conjunction, so both sides compute this.
\<close>

definition good_inds :: "int list \<Rightarrow> int list \<Rightarrow> int \<Rightarrow> int \<Rightarrow> int \<Rightarrow> int \<Rightarrow> nat list" where
  "good_inds nonzeroy nonzerox win_y_low win_y_high win_x_low win_x_high =
     filter (\<lambda>i. nonzeroy ! i < win_y_high \<and> nonzeroy ! i \<ge> win_y_low \<and>
                 nonzerox ! i < win_x_high \<and> nonzerox ! i \<ge> win_x_low)
       [0 ..< length nonzeroy]"

text \<open>Fancy indexing \<^verbatim>\<open>a[inds]\<close> with indices that are in range.\<close>

definition take_inds :: "'a list \<Rightarrow> nat list \<Rightarrow> 'a list" where
  "take_inds a inds = map (\<lambda>i. a ! i) inds"

text \<open>\<^verbatim>\<open>np.int(np.mean(xs))\<close> for a non-empty \<open>xs\<close>: the mean, truncated towards zero.\<close>

definition int_mean :: "int list \<Rightarrow> int" where
  "int_mean xs =
     (let s = sum_list xs; n = int (length xs)
      in if 0 \<le> s then s div n else - ((- s) div n))"

record wstate =
  leftx_current :: int
  rightx_current :: int
  left_lane_inds :: "nat list list"
  right_lane_inds :: "nat list list"

text \<open>The body of the loop \<^verbatim>\<open>for window in range(nwindows)\<close>.\<close>

definition window_step :: "image \<Rightarrow> int list \<Rightarrow> int list \<Rightarrow> wstate \<Rightarrow> nat \<Rightarrow> wstate" where
  "window_step img nonzeroy nonzerox s window =
     (let window_height = int (height img div nwindows);
          win_y_low = int (height img) - (int window + 1) * window_height;
          win_y_high = int (height img) - int window * window_height;
          win_xleft_low = leftx_current s - window_margin;
          win_xleft_high = leftx_current s + window_margin;
          win_xright_low = rightx_current s - window_margin;
          win_xright_high = rightx_current s + window_margin;
          good_left_inds =
            good_inds nonzeroy nonzerox win_y_low win_y_high win_xleft_low win_xleft_high;
          good_right_inds =
            good_inds nonzeroy nonzerox win_y_low win_y_high win_xright_low win_xright_high
      in \<lparr> leftx_current =
             (if length good_left_inds > minpix
              then int_mean (take_inds nonzerox good_left_inds) else leftx_current s),
           rightx_current =
             (if length good_right_inds > minpix
              then int_mean (take_inds nonzerox good_right_inds) else rightx_current s),
           left_lane_inds = left_lane_inds s @ [good_left_inds],
           right_lane_inds = right_lane_inds s @ [good_right_inds] \<rparr>)"

text \<open>
  The state after all windows. \<^verbatim>\<open>np.concatenate\<close> of the nine index arrays cannot raise,
  so the \<^verbatim>\<open>except ValueError\<close> branch is never taken.
\<close>

definition run_windows :: "image \<Rightarrow> nat \<Rightarrow> nat \<Rightarrow> wstate" where
  "run_windows img leftx_base rightx_base =
     foldl (window_step img (nonzeroy_of img) (nonzerox_of img))
       \<lparr> leftx_current = int leftx_base, rightx_current = int rightx_base,
         left_lane_inds = [], right_lane_inds = [] \<rparr>
       [0 ..< nwindows]"

definition windowHistograms :: "image \<Rightarrow> (int list \<times> int list \<times> int list \<times> int list) result" where
  "windowHistograms img =
     (case histogram_bases img of
        Inl e \<Rightarrow> Inl e
      | Inr (leftx_base, rightx_base) \<Rightarrow>
          (let s = run_windows img leftx_base rightx_base;
               left_inds = concat (left_lane_inds s);
               right_inds = concat (right_lane_inds s);
               leftx = take_inds (nonzerox_of img) left_inds;
               lefty = take_inds (nonzeroy_of img) left_inds;
               rightx = take_inds (nonzerox_of img) right_inds;
               righty = take_inds (nonzeroy_of img) right_inds
           in Inr (leftx, lefty, rightx, righty)))"

subsection \<open>Warm start: \<^verbatim>\<open>searchAroundPoly\<close>\<close>

text \<open>
  A fit is the coefficient triple \<open>(a, b, c)\<close> of \<open>x = a*y^2 + b*y + c\<close>, highest power
  first as \<^verbatim>\<open>np.polyfit\<close> returns it (\<^verbatim>\<open>fit[0]\<close>, \<^verbatim>\<open>fit[1]\<close>, \<^verbatim>\<open>fit[2]\<close>).
\<close>

type_synonym coeffs = "real \<times> real \<times> real"

definition poly_margin :: int where "poly_margin = 60"

text \<open>Boolean-mask indexing \<^verbatim>\<open>a[mask]\<close>.\<close>

definition mask_select :: "'a list \<Rightarrow> bool list \<Rightarrow> 'a list" where
  "mask_select a keep = map fst (filter snd (zip a keep))"

text \<open>
  The function reads the module-level name \<^verbatim>\<open>binary_warped\<close>, not its parameter
  \<^verbatim>\<open>image\<close>. The first argument of the model is what that global name is bound to
  (\<open>None\<close> when it is unbound, which raises NameError).
\<close>

definition searchAroundPoly ::
  "image option \<Rightarrow> image \<Rightarrow> coeffs \<Rightarrow> coeffs \<Rightarrow> (int list \<times> int list \<times> int list \<times> int list) result"
where
  "searchAroundPoly binary_warped img left_fit right_fit =
     (case binary_warped of
        None \<Rightarrow> Inl NameError
      | Some bw \<Rightarrow>
          (case (left_fit, right_fit) of
             ((la, lb, lc), (ra, rb, rc)) \<Rightarrow>
               (let nonzeroy = nonzeroy_of bw;
                    nonzerox = nonzerox_of bw;
                    left_margins =
                      map (\<lambda>y. la * real_of_int (y ^ 2) + lb * real_of_int y + lc) nonzeroy;
                    right_margins =
                      map (\<lambda>y. ra * real_of_int (y ^ 2) + rb * real_of_int y + rc) nonzeroy;
                    left_lane_inds =
                      map2 (\<lambda>x m. real_of_int x < m + real_of_int poly_margin \<and>
                                   real_of_int x > m - real_of_int poly_margin)
                        nonzerox left_margins;
                    right_lane_inds =
                      map2 (\<lambda>x m. real_of_int x < m + real_of_int poly_margin \<and>
                                   real_of_int x > m - real_of_int poly_margin)
                        nonzerox right_margins
                in Inr (mask_select nonzerox left_lane_inds, mask_select nonzeroy left_lane_inds,
                        mask_select nonzerox right_lane_inds, mask_select nonzeroy right_lane_inds))))"

subsection \<open>The library call \<^verbatim>\<open>np.polyfit(t, x, 2)\<close>\<close>

text \<open>
  \<^verbatim>\<open>np.polyfit\<close> is numpy's, not the notebook's: \<open>fit_poly\<close>, \<open>detectLane\<close> and
  \<open>process_image\<close> take it as a parameter \<open>polyfit\<close>, a function from the abscissae and
  the values to the three coefficients or an exception. What the theorems need of it
  they state as a hypothesis; the only such fact is that an empty vector of abscissae
  raises TypeError ("expected non-empty vector for x").

  To run the functions on example frames the parameter is instantiated with
  \<open>polyfit_exact\<close>, least squares in exact arithmetic:
  \<^item> an empty \<open>t\<close> raises TypeError, and so do vectors of different lengths;
  \<^item> with three or more distinct abscissae the least-squares solution is unique: the
    solution of the normal equations, here by Cramer's rule;
  \<^item> with fewer distinct abscissae the system is rank deficient: numpy only warns
    (RankWarning) and returns the least-squares solution of minimal norm in the
    coordinates it scales each column of the Vandermonde matrix by (the column's euclidean
    norm), that is, the one that minimises \<open>S4*a^2 + S2*b^2 + S0*c^2\<close>, \<open>Sk\<close> the sum of
    the k-th powers of the abscissae;
  \<^item> when all abscissae are 0 the first two columns are zero, the scaling divides 0 by 0
    and the solver fails on the NaN entries, with an exception whose type depends on the
    version of numpy (\<open>SolverError\<close>).
  numpy's coefficients differ from these by rounding; in particular on collinear points
  the exact leading coefficient is 0 where numpy returns a number of the order of 1e-17.
  The instance is used on the example frames only, none of them collinear.
\<close>

definition det3 ::
  "real \<Rightarrow> real \<Rightarrow> real \<Rightarrow> real \<Rightarrow> real \<Rightarrow> real \<Rightarrow> real \<Rightarrow> real \<Rightarrow> real \<Rightarrow> real" where
  "det3 a b c d e f g h i = a * (e * i - f * h) - b * (d * i - f * g) + c * (d * h - e * g)"

definition power_sum :: "nat \<Rightarrow> real list \<Rightarrow> real" where
  "power_sum k ts = sum_list (map (\<lambda>t. t ^ k) ts)"

definition moment :: "nat \<Rightarrow> real list \<Rightarrow> real list \<Rightarrow> real" where
  "moment k ts xs = sum_list (map2 (\<lambda>t x. t ^ k * x) ts xs)"

definition mean_at :: "real \<Rightarrow> real list \<Rightarrow> real list \<Rightarrow> real" where
  "mean_at t ts xs =
     (let sel = map snd (filter (\<lambda>p. fst p = t) (zip ts xs))
      in sum_list sel / real (length sel))"

definition polyfit_full :: "real list \<Rightarrow> real list \<Rightarrow> coeffs" where
  "polyfit_full ts xs =
     (let s0 = power_sum 0 ts; s1 = power_sum 1 ts; s2 = power_sum 2 ts;
          s3 = power_sum 3 ts; s4 = power_sum 4 ts;
          t0 = moment 0 ts xs; t1 = moment 1 ts xs; t2 = moment 2 ts xs;
          d = det3 s4 s3 s2 s3 s2 s1 s2 s1 s0
      in (det3 t2 s3 s2 t1 s2 s1 t0 s1 s0 / d,
          det3 s4 t2 s2 s3 t1 s1 s2 t0 s0 / d,
          det3 s4 s3 t2 s3 s2 t1 s2 s1 t0 / d))"

definition polyfit_two :: "real \<Rightarrow> real \<Rightarrow> real list \<Rightarrow> real list \<Rightarrow> coeffs" where
  "polyfit_two u v ts xs =
     (let mu = mean_at u ts xs; mv = mean_at v ts xs;
          slope = (mv - mu) / (v - u);
          p1 = slope; p2 = mu - slope * u;
          n0 = 1; n1 = - (u + v); n2 = u * v;
          w0 = power_sum 4 ts; w1 = power_sum 2 ts; w2 = power_sum 0 ts;
          alpha = - (w1 * p1 * n1 + w2 * p2 * n2) / (w0 * n0 * n0 + w1 * n1 * n1 + w2 * n2 * n2)
      in (alpha * n0, p1 + alpha * n1, p2 + alpha * n2))"

definition polyfit_one :: "real \<Rightarrow> real list \<Rightarrow> coeffs" where
  "polyfit_one t xs =
     (let m = sum_list xs / real (length xs)
      in (m / (3 * t ^ 2), m / (3 * t), m / 3))"

definition polyfit_exact :: "real list \<Rightarrow> real list \<Rightarrow> coeffs result" where
  "polyfit_exact ts xs =
     (if ts = [] \<or> length ts \<noteq> length xs then Inl TypeError
      else (case remdups ts of
              [t] \<Rightarrow> (if t = 0 then Inl SolverError else Inr (polyfit_one t xs))
            | [u, v] \<Rightarrow> Inr (polyfit_two u v ts xs)
            | _ \<Rightarrow> Inr (polyfit_full ts xs)))"

subsection \<open>\<^verbatim>\<open>fit_poly\<close>\<close>

definition rbind :: "'a result \<Rightarrow> ('a \<Rightarrow> 'b result) \<Rightarrow> 'b result" where
  "rbind m f = (case m of Inl e \<Rightarrow> Inl e | Inr v \<Rightarrow> f v)"

definition ym_per_pix :: real where "ym_per_pix = 30 / 720"
definition xm_per_pix :: real where "xm_per_pix = 3.7 / 700"

text \<open>\<^verbatim>\<open>np.linspace(0, h-1, h)\<close>: the \<open>h\<close> values \<open>0, 1, ..., h-1\<close>.\<close>

definition linspace_rows :: "nat \<Rightarrow> real list" where
  "linspace_rows h = map real [0 ..< h]"

definition polyval2 :: "coeffs \<Rightarrow> real \<Rightarrow> real" where
  "polyval2 fit y = (case fit of (a, b, c) \<Rightarrow> a * y ^ 2 + b * y + c)"

text \<open>
  The two pixel-space fits are made first, outside the \<^verbatim>\<open>try\<close>; an exception of
  \<^verbatim>\<open>np.polyfit\<close> leaves the function. Inside the \<^verbatim>\<open>try\<close> the fits are arrays, the
  arithmetic on them raises no TypeError, and the \<^verbatim>\<open>except\<close> branch (the dummy
  quadratic) is not reachable. The pixel-space fits are not returned.
\<close>

type_synonym polyfit_fn = "real list \<Rightarrow> real list \<Rightarrow> coeffs result"

definition fit_poly ::
  "polyfit_fn \<Rightarrow> nat \<times> nat \<Rightarrow> int list \<Rightarrow> int list \<Rightarrow> int list \<Rightarrow> int list \<Rightarrow>
   (real list \<times> real list \<times> coeffs \<times> coeffs \<times> real list) result"
where
  "fit_poly polyfit img_shape leftx lefty rightx righty =
     rbind (polyfit (map real_of_int lefty) (map real_of_int leftx)) (\<lambda>left_fit.
     rbind (polyfit (map real_of_int righty) (map real_of_int rightx)) (\<lambda>right_fit.
       (let ploty = linspace_rows (fst img_shape);
            left_fitx = map (polyval2 left_fit) ploty;
            right_fitx = map (polyval2 right_fit) ploty
        in
     rbind (polyfit (map (\<lambda>y. real_of_int y * ym_per_pix) lefty)
                     (map (\<lambda>x. real_of_int x * xm_per_pix) leftx)) (\<lambda>left_fit_rw.
     rbind (polyfit (map (\<lambda>y. real_of_int y * ym_per_pix) righty)
                     (map (\<lambda>x. real_of_int x * xm_per_pix) rightx)) (\<lambda>right_fit_rw.
       Inr (left_fitx, right_fitx, left_fit_rw, right_fit_rw, ploty))))))"

subsection \<open>\<^verbatim>\<open>measure_curvature_real\<close>\<close>

text \<open>\<^verbatim>\<open>np.max\<close> of a non-empty array.\<close>

definition np_max :: "real list \<Rightarrow> real" where
  "np_max ys = fold max (tl ys) (hd ys)"

text \<open>
  The range of float64. The embedding takes the result of a float operation to be the
  exact real when its magnitude is at most the largest finite double, and to be
  non-finite (\<open>inf\<close> or \<open>nan\<close>, here \<open>None\<close>) otherwise; rounding inside the range is
  not modelled.
\<close>

definition dbl_max :: real where
  "dbl_max = (2 ^ 53 - 1) * 2 ^ 971"

definition fl :: "real \<Rightarrow> real option" where
  "fl v = (if \<bar>v\<bar> \<le> dbl_max then Some v else None)"

text \<open>
  \<^verbatim>\<open>((1 + (2*fit[0]*y_eval + fit[1])**2)**1.5) / np.absolute(2*fit[0])\<close>, operation by
  operation. An operation on a non-finite operand stays non-finite up to the quotient
  (\<open>inf/inf\<close> and \<open>inf*0\<close> are \<open>nan\<close>), and the division of the numerator, which is at
  least 1, by a float zero is \<open>inf\<close>.
\<close>

definition curverad :: "coeffs \<Rightarrow> real \<Rightarrow> real option" where
  "curverad fit y_eval =
     (case fit of
        (a, b, c) \<Rightarrow>
          Option.bind (fl (2 * a)) (\<lambda>a2.
          Option.bind (fl (a2 * y_eval)) (\<lambda>ay.
          Option.bind (fl (ay + b)) (\<lambda>t.
          Option.bind (fl (t ^ 2)) (\<lambda>sq.
          Option.bind (fl (1 + sq)) (\<lambda>base.
          Option.bind (fl (base powr 1.5)) (\<lambda>num.
            if a2 = 0 then None else fl (num / \<bar>a2\<bar>))))))))"

text \<open>
  \<^verbatim>\<open>np.max\<close> raises ValueError on an empty array. When a radius or the sum of the two
  radii is not finite, the floor division by 2 gives \<open>nan\<close> and \<^verbatim>\<open>np.int\<close> of \<open>nan\<close>
  raises ValueError. Otherwise the result is the floor of half the sum.
\<close>

definition measure_curvature_real :: "real list \<Rightarrow> coeffs \<Rightarrow> coeffs \<Rightarrow> int result" where
  "measure_curvature_real ploty left_fit right_fit =
     (if ploty = [] then Inl ValueError
      else (let y_eval = np_max ploty
            in case curverad left_fit y_eval of
                 None \<Rightarrow> Inl ValueError
               | Some left_curverad \<Rightarrow>
                   (case curverad right_fit y_eval of
                      None \<Rightarrow> Inl ValueError
                    | Some right_curverad \<Rightarrow>
                        (case fl (left_curverad + right_curverad) of
                           None \<Rightarrow> Inl ValueError
                         | Some both \<Rightarrow> Inr \<lfloor>both / 2\<rfloor>))))"

subsection \<open>Arrays in memory\<close>

text \<open>
  numpy arrays are mutable objects and \<^verbatim>\<open>cv2.fillPoly\<close> draws into its first argument
  in place, so \<^verbatim>\<open>detectLane\<close> is modelled over a store of arrays: references are
  natural numbers, a new array takes the next free reference.
\<close>

record image3 =
  height3 :: nat
  width3 :: nat
  pix3 :: "nat \<Rightarrow> nat \<Rightarrow> nat \<times> nat \<times> nat"

datatype ndarray = Gray image | Colour image3

record store =
  cells :: "nat \<Rightarrow> ndarray option"
  next_free :: nat

definition alloc :: "ndarray \<Rightarrow> store \<Rightarrow> nat \<times> store" where
  "alloc v h =
     (next_free h, h \<lparr> cells := (cells h) (next_free h \<mapsto> v), next_free := Suc (next_free h) \<rparr>)"

text \<open>
  \<^verbatim>\<open>np.dstack((image, image, image))*255\<close>: a new array of three equal channels; the
  product is taken in the image's type uint8, so it wraps modulo 256.
\<close>

definition dstack255 :: "image \<Rightarrow> image3" where
  "dstack255 img =
     \<lparr> height3 = height img, width3 = width img,
       pix3 = (\<lambda>y x. let v = (pix img y x * 255) mod 256 in (v, v, v)) \<rparr>"

text \<open>
  \<^verbatim>\<open>cv2.fillPoly(img, pts, colour)\<close> overwrites the array at the reference of its first
  argument, whatever its number of channels. The rasterisation is OpenCV's and is a
  parameter \<open>fillPoly\<close> of the model.
\<close>

type_synonym raster = "ndarray \<Rightarrow> (int \<times> int) list \<Rightarrow> nat \<times> nat \<times> nat \<Rightarrow> ndarray"

definition fill_at :: "raster \<Rightarrow> nat \<Rightarrow> (int \<times> int) list \<Rightarrow> nat \<times> nat \<times> nat \<Rightarrow> store \<Rightarrow> store" where
  "fill_at fillPoly r pts colour h =
     (case cells h r of
        Some a \<Rightarrow> h \<lparr> cells := (cells h) (r \<mapsto> fillPoly a pts colour) \<rparr>
      | None \<Rightarrow> h)"

text \<open>\<^verbatim>\<open>np.int_\<close> on a float: truncation towards zero.\<close>

definition np_trunc :: "real \<Rightarrow> int" where
  "np_trunc r = (if 0 \<le> r then \<lfloor>r\<rfloor> else \<lceil>r\<rceil>)"

text \<open>
  The polygon \<^verbatim>\<open>np.hstack((window1, window2))\<close> where \<^verbatim>\<open>window1\<close> runs down the
  curve \<open>xs1\<close> and \<^verbatim>\<open>window2\<close> (under \<^verbatim>\<open>np.flipud\<close>) back up the curve \<open>xs2\<close>.
\<close>

definition band_polygon :: "real list \<Rightarrow> real list \<Rightarrow> real list \<Rightarrow> (int \<times> int) list" where
  "band_polygon xs1 xs2 ploty =
     map (\<lambda>p. (np_trunc (fst p), np_trunc (snd p))) (zip xs1 ploty @ rev (zip xs2 ploty))"

subsection \<open>\<^verbatim>\<open>detectLane\<close> and \<^verbatim>\<open>process_image\<close>\<close>

text \<open>
  The module-level names: the two fits that \<^verbatim>\<open>process_image\<close> declares \<^verbatim>\<open>global\<close>,
  and \<^verbatim>\<open>binary_warped\<close>, which \<^verbatim>\<open>searchAroundPoly\<close> reads (a reference to a 2-D array
  when it is bound; no cell of the notebook binds it).
\<close>

record globals =
  g_left_fit :: coeffs
  g_right_fit :: coeffs
  g_binary_warped :: "nat option"

definition lookup_binary_warped :: "globals \<Rightarrow> store \<Rightarrow> image option" where
  "lookup_binary_warped g h =
     (case g_binary_warped g of
        None \<Rightarrow> None
      | Some r \<Rightarrow> (case cells h r of Some (Gray im) \<Rightarrow> Some im | _ \<Rightarrow> None))"

text \<open>
  \<^verbatim>\<open>(640 - (left_fitx[-1] + right_fitx[-1])/2)*xm_per_pix\<close>; indexing an empty array
  raises IndexError.
\<close>

definition lane_offset :: "real list \<Rightarrow> real list \<Rightarrow> real result" where
  "lane_offset left_fitx right_fitx =
     (if left_fitx = [] \<or> right_fitx = [] then Inl IndexError
      else Inr ((640 - (last left_fitx + last right_fitx) / 2) * xm_per_pix))"

text \<open>
  The part of \<^verbatim>\<open>detectLane\<close> before the visualisation: search, fit, curvature, offset.
  It only reads the frame.
\<close>

definition detectLane_measure ::
  "polyfit_fn \<Rightarrow> image option \<Rightarrow> image \<Rightarrow> coeffs \<Rightarrow> coeffs \<Rightarrow> (real list \<times> real list \<times> real list \<times> int \<times> real) result"
where
  "detectLane_measure polyfit binary_warped img left_fit right_fit =
     rbind (if left_fit = (0, 0, 0) \<and> right_fit = (0, 0, 0)
            then windowHistograms img
            else searchAroundPoly binary_warped img left_fit right_fit)
       (\<lambda>(leftx, lefty, rightx, righty).
     rbind (fit_poly polyfit (height img, width img) leftx lefty rightx righty)
       (\<lambda>(left_fitx, right_fitx, left_fit_rw, right_fit_rw, ploty).
     rbind (measure_curvature_real ploty left_fit_rw right_fit_rw)
       (\<lambda>curvature.
     rbind (lane_offset left_fitx right_fitx)
       (\<lambda>offset. Inr (left_fitx, right_fitx, ploty, curvature, offset)))))"

text \<open>
  \<^verbatim>\<open>detectLane(image, left_fit, right_fit)\<close>, \<open>image_ref\<close> the reference of the 2-D
  array passed as \<^verbatim>\<open>image\<close>. The result is the returned tuple
  \<^verbatim>\<open>(out_img, left_fit, right_fit, curvature, offset)\<close> (\<open>out_img\<close> as a reference) or the
  exception, together with the store afterwards.
\<close>

definition detectLane ::
  "polyfit_fn \<Rightarrow> raster \<Rightarrow> globals \<Rightarrow> store \<Rightarrow> nat \<Rightarrow> coeffs \<Rightarrow> coeffs \<Rightarrow>
   (nat \<times> coeffs \<times> coeffs \<times> int \<times> real) result \<times> store"
where
  "detectLane polyfit fillPoly g h image_ref left_fit right_fit =
     (case cells h image_ref of
        Some (Gray img) \<Rightarrow>
          (case detectLane_measure polyfit (lookup_binary_warped g h) img left_fit right_fit of
             Inl e \<Rightarrow> (Inl e, h)
           | Inr (left_fitx, right_fitx, ploty, curvature, offset) \<Rightarrow>
               (let margin = 30;
                    (out_img, h1) = alloc (Colour (dstack255 img)) h;
                    left_line_pts =
                      band_polygon (map (\<lambda>x. x - margin) left_fitx)
                        (map (\<lambda>x. x + margin) left_fitx) ploty;
                    right_line_pts =
                      band_polygon (map (\<lambda>x. x - margin) right_fitx)
                        (map (\<lambda>x. x + margin) right_fitx) ploty;
                    center_pts =
                      band_polygon (map (\<lambda>x. x + margin) left_fitx)
                        (map (\<lambda>x. x - margin) right_fitx) ploty;
                    h2 = fill_at fillPoly out_img left_line_pts (255, 0, 0) h1;
                    h3 = fill_at fillPoly out_img right_line_pts (0, 0, 255) h2;
                    h4 = fill_at fillPoly out_img center_pts (0, 255, 0) h3
                in (Inr (out_img, left_fit, right_fit, curvature, offset), h4)))
      | _ \<Rightarrow> (Inl TypeError, h))"

text \<open>
  \<^verbatim>\<open>process_image\<close>, from the binary top-down frame on: the calibration, thresholding
  and warp that produce \<^verbatim>\<open>transformed\<close> are OpenCV's and are the parameter \<open>pre\<close>; the
  frame they return is a new array. The two global fits are assigned from the tuple
  that \<^verbatim>\<open>detectLane\<close> returns; an exception leaves them as they were. The rendering of
  the result (inverse warp, text, blending) is left out: the model returns the reference
  of \<^verbatim>\<open>curve\<close> with the curvature and the offset.
\<close>

definition process_image ::
  "polyfit_fn \<Rightarrow> ('raw \<Rightarrow> image) \<Rightarrow> raster \<Rightarrow> 'raw \<Rightarrow> globals \<times> store \<Rightarrow>
   (nat \<times> int \<times> real) result \<times> globals \<times> store"
where
  "process_image polyfit pre fillPoly frame gs =
     (case gs of
        (g, h) \<Rightarrow>
          (let (transformed, h1) = alloc (Gray (pre frame)) h
           in case detectLane polyfit fillPoly g h1 transformed (g_left_fit g) (g_right_fit g) of
                (Inl e, h2) \<Rightarrow> (Inl e, g, h2)
              | (Inr (curve, left_fit, right_fit, curvature, offset), h2) \<Rightarrow>
                  (Inr (curve, curvature, offset),
                   g \<lparr> g_left_fit := left_fit, g_right_fit := right_fit \<rparr>, h2)))"

text \<open>The state in which the notebook starts a sequence: both fits \<^verbatim>\<open>[0,0,0]\<close>.\<close>

definition initial_globals :: globals where
  "initial_globals = \<lparr> g_left_fit = (0, 0, 0), g_right_fit = (0, 0, 0), g_binary_warped = None \<rparr>"

subsection \<open>Example frames\<close>

text \<open>
  A 4 x 9 frame with three "on" pixels, (row 6, column 0), (row 7, column 1) and
  (row 8, column 3), used to run the functions on a concrete input.
\<close>

definition curve_frame :: image where
  "curve_frame =
     \<lparr> height = 9, width = 4,
       pix = (\<lambda>y x. if (y = 6 \<and> x = 0) \<or> (y = 7 \<and> x = 1) \<or> (y = 8 \<and> x = 3) then 1 else 0) \<rparr>"

text \<open>
  A frame with two "on" pixels in its bottom row, (row 8, column 1) and (row 8, column 3):
  each side collects both, two points with one distinct \<open>y\<close>.
\<close>

definition pair_frame :: image where
  "pair_frame =
     \<lparr> height = 9, width = 4,
       pix = (\<lambda>y x. if y = 8 \<and> (x = 1 \<or> x = 3) then 1 else 0) \<rparr>"


text \<open>
  A 64 x 9 frame whose bottom row has exactly thirty "on" pixels, the columns 0 to 29.
\<close>

definition thirty_frame :: image where
  "thirty_frame =
     \<lparr> height = 9, width = 64, pix = (\<lambda>y x. if y = 8 \<and> x < 30 then 1 else 0) \<rparr>"

text \<open>A store that holds one frame, at reference 0.\<close>

definition store_with :: "image \<Rightarrow> store" where
  "store_with img = \<lparr> cells = (\<lambda>r. if r = 0 then Some (Gray img) else None), next_free = 1 \<rparr>"

text \<open>A rasteriser that leaves the picture as it is, to run \<open>detectLane\<close> on examples.\<close>

definition no_draw :: raster where
  "no_draw a pts colour = a"

text \<open>
  A rasteriser that paints the whole array: every pixel of a 3-channel array gets the
  colour, every pixel of a 2-D array its first component.
\<close>

definition flood :: raster where
  "flood a pts colour =
     (case a of
        Gray im \<Rightarrow> Gray (im \<lparr> pix := (\<lambda>y x. fst colour) \<rparr>)
      | Colour im \<Rightarrow> Colour (im \<lparr> pix3 := (\<lambda>y x. colour) \<rparr>))"

text \<open>A frame with a single column, one "on" pixel in its bottom row.\<close>

definition narrow_frame :: image where
  "narrow_frame = \<lparr> height = 9, width = 1, pix = (\<lambda>y x. if y = 8 then 1 else 0) \<rparr>"

subsection \<open>The formulas of the specification\<close>

text \<open>
  The radius of curvature as the specification writes it:
  \<open>R = (1 + (2*a*y + b)^2)^1.5 / |2*a|\<close>.
\<close>

definition radius_formula :: "real \<Rightarrow> real \<Rightarrow> real \<Rightarrow> real" where
  "radius_formula a b y = (1 + (2 * a * y + b) ^ 2) powr 1.5 / \<bar>2 * a\<bar>"

text \<open>
  The side condition under which the float computation of the radius stays finite: no
  operation of the formula leaves the range of float64.
\<close>

definition no_overflow :: "real \<Rightarrow> real \<Rightarrow> real \<Rightarrow> bool" where
  "no_overflow a b y =
     (\<bar>2 * a\<bar> \<le> dbl_max \<and> \<bar>2 * a * y\<bar> \<le> dbl_max \<and> \<bar>2 * a * y + b\<bar> \<le> dbl_max \<and>
      (2 * a * y + b) ^ 2 \<le> dbl_max \<and> 1 + (2 * a * y + b) ^ 2 \<le> dbl_max \<and>
      (1 + (2 * a * y + b) ^ 2) powr 1.5 \<le> dbl_max \<and> radius_formula a b y \<le> dbl_max)"

text \<open>
  The warm-start criterion as the specification writes it: the pixel at row \<open>y\<close>, column
  \<open>x\<close> is attributed to a side when \<open>x\<close> lies strictly within 60 pixels of the prior
  fit's value at \<open>y\<close>.
\<close>

definition within_margin :: "coeffs \<Rightarrow> nat \<times> nat \<Rightarrow> bool" where
  "within_margin fit p = (\<bar>real (snd p) - polyval2 fit (real (fst p))\<bar> < 60)"

text \<open>
  The pixels a window collects, as the specification describes them: the "on" pixels of
  the frame whose row lies in \<open>[y_low, y_high)\<close> and whose column lies in
  \<open>[x_low, x_high)\<close>.
\<close>

definition window_pixels :: "image \<Rightarrow> int \<Rightarrow> int \<Rightarrow> int \<Rightarrow> int \<Rightarrow> (nat \<times> nat) set" where
  "window_pixels img y_low y_high x_low x_high =
     {(y, x). y < height img \<and> x < width img \<and> pix img y x \<noteq> 0 \<and>
              y_low \<le> int y \<and> int y < y_high \<and> x_low \<le> int x \<and> int x < x_high}"

text \<open>The mean column of a set of pixels, rounded down.\<close>

definition mean_column :: "(nat \<times> nat) set \<Rightarrow> int" where
  "mean_column P = \<lfloor>(\<Sum>p\<in>P. real (snd p)) / real (card P)\<rfloor>"

section \<open>Properties\<close>

subsection \<open>The histogram and its two peaks\<close>

lemma argmax_aux_spec:
  assumes "bi < length pre" and "i = length pre" and "pre ! bi = bv"
    and "\<forall>j<length pre. pre ! j \<le> bv" and "\<forall>j<bi. pre ! j < bv"
  shows "argmax_aux bi bv i vs < length (pre @ vs) \<and>
         (\<forall>j<length (pre @ vs). (pre @ vs) ! j \<le> (pre @ vs) ! argmax_aux bi bv i vs) \<and>
         (\<forall>j<argmax_aux bi bv i vs. (pre @ vs) ! j < (pre @ vs) ! argmax_aux bi bv i vs)"
  using assms
proof (induction vs arbitrary: bi bv i pre)
  case Nil
  then show ?case by simp
next
  case (Cons v vs)
  show ?case
  proof (cases "bv < v")
    case True
    have a: "i < length (pre @ [v])" using Cons.prems by simp
    have b: "Suc i = length (pre @ [v])" using Cons.prems by simp
    have c: "(pre @ [v]) ! i = v" using Cons.prems by simp
    have d: "\<forall>j<length (pre @ [v]). (pre @ [v]) ! j \<le> v"
      using Cons.prems True by (auto simp: nth_append less_Suc_eq intro: order_trans less_imp_le)
    have e: "\<forall>j<i. (pre @ [v]) ! j < v"
      using Cons.prems True by (auto simp: nth_append intro: le_less_trans)
    from Cons.IH [OF a b c d e] True show ?thesis by simp
  next
    case False
    have a: "bi < length (pre @ [v])" using Cons.prems by simp
    have b: "Suc i = length (pre @ [v])" using Cons.prems by simp
    have c: "(pre @ [v]) ! bi = bv" using Cons.prems by (simp add: nth_append)
    have d: "\<forall>j<length (pre @ [v]). (pre @ [v]) ! j \<le> bv"
      using Cons.prems False by (auto simp: nth_append less_Suc_eq)
    have e: "\<forall>j<bi. (pre @ [v]) ! j < bv"
      using Cons.prems by (auto simp: nth_append)
    from Cons.IH [OF a b c d e] False show ?thesis by simp
  qed
qed

lemma argmax_spec:
  assumes "vs \<noteq> []"
  shows "\<exists>r. argmax vs = Inr r \<and> r < length vs \<and> (\<forall>j<length vs. vs ! j \<le> vs ! r) \<and>
             (\<forall>j<r. vs ! j < vs ! r)"
proof -
  from assms obtain v rest where vs: "vs = v # rest" by (cases vs) auto
  have "argmax_aux 0 v 1 rest < length ([v] @ rest) \<and>
        (\<forall>j<length ([v] @ rest). ([v] @ rest) ! j \<le> ([v] @ rest) ! argmax_aux 0 v 1 rest) \<and>
        (\<forall>j<argmax_aux 0 v 1 rest. ([v] @ rest) ! j < ([v] @ rest) ! argmax_aux 0 v 1 rest)"
    by (rule argmax_aux_spec) simp_all
  then show ?thesis by (simp add: vs argmax_def)
qed

lemma histogram_length: "length (histogram img) = width img"
  by (simp add: histogram_def)

lemma histogram_nth:
  "x < width img \<Longrightarrow>
   histogram img ! x = (\<Sum>y = height img div 2 ..< height img. pix img y x)"
  by (simp add: histogram_def interv_sum_list_conv_sum_set_nat)


lemma histogram_bases_spec:
  assumes "2 \<le> width img"
  shows "\<exists>lb rb. histogram_bases img = Inr (lb, rb) \<and>
           length (histogram img) = width img \<and>
           (\<forall>x<width img. histogram img ! x =
              (\<Sum>y = height img div 2 ..< height img. pix img y x)) \<and>
           lb < width img div 2 \<and>
           (\<forall>j<width img div 2. histogram img ! j \<le> histogram img ! lb) \<and>
           (\<forall>j<lb. histogram img ! j < histogram img ! lb) \<and>
           width img div 2 \<le> rb \<and> rb < width img \<and>
           (\<forall>j. width img div 2 \<le> j \<and> j < width img \<longrightarrow>
                 histogram img ! j \<le> histogram img ! rb) \<and>
           (\<forall>j. width img div 2 \<le> j \<and> j < rb \<longrightarrow> histogram img ! j < histogram img ! rb)"
proof -
  let ?h = "histogram img"
  let ?m = "width img div 2"
  have len: "length ?h = width img" by (rule histogram_length)
  have m_pos: "0 < ?m" and m_lt: "?m < width img" using assms by auto
  have "take ?m ?h \<noteq> []" using m_pos len by auto
  from argmax_spec [OF this] obtain lb where
    lb: "argmax (take ?m ?h) = Inr lb" "lb < length (take ?m ?h)"
        "\<forall>j<length (take ?m ?h). take ?m ?h ! j \<le> take ?m ?h ! lb"
        "\<forall>j<lb. take ?m ?h ! j < take ?m ?h ! lb"
    by blast
  have "drop ?m ?h \<noteq> []" using m_lt len by auto
  from argmax_spec [OF this] obtain r where
    r: "argmax (drop ?m ?h) = Inr r" "r < length (drop ?m ?h)"
       "\<forall>j<length (drop ?m ?h). drop ?m ?h ! j \<le> drop ?m ?h ! r"
       "\<forall>j<r. drop ?m ?h ! j < drop ?m ?h ! r"
    by blast
  have lb_lt: "lb < ?m" using lb(2) len by simp
  have r_lt: "r + ?m < width img" using r(2) len by simp
  have eq: "histogram_bases img = Inr (lb, r + ?m)"
    using lb(1) r(1) by (simp add: histogram_bases_def Let_def len)
  have l_max: "\<forall>j<?m. ?h ! j \<le> ?h ! lb"
    using lb(3) lb_lt len by simp
  have l_first: "\<forall>j<lb. ?h ! j < ?h ! lb"
    using lb(4) lb_lt len by simp
  have r_max: "\<forall>j. ?m \<le> j \<and> j < width img \<longrightarrow> ?h ! j \<le> ?h ! (r + ?m)"
  proof (intro allI impI)
    fix j assume j: "?m \<le> j \<and> j < width img"
    then have "j - ?m < length (drop ?m ?h)" using len by auto
    with r(3) have "drop ?m ?h ! (j - ?m) \<le> drop ?m ?h ! r" by blast
    then show "?h ! j \<le> ?h ! (r + ?m)" using j len r_lt by (simp add: add.commute)
  qed
  have r_first: "\<forall>j. ?m \<le> j \<and> j < r + ?m \<longrightarrow> ?h ! j < ?h ! (r + ?m)"
  proof (intro allI impI)
    fix j assume j: "?m \<le> j \<and> j < r + ?m"
    then have "j - ?m < r" by auto
    with r(4) have "drop ?m ?h ! (j - ?m) < drop ?m ?h ! r" by blast
    then show "?h ! j < ?h ! (r + ?m)" using j len r_lt by (simp add: add.commute)
  qed
  show ?thesis
    using eq len histogram_nth [of _ img] lb_lt l_max l_first r_lt r_max r_first
    by (intro exI [of _ lb] exI [of _ "r + ?m"]) simp
qed

text \<open>
  C7, as the code has it. For every frame with at least two columns, cold-start search
  is the window loop started from two centres \<open>lb\<close> and \<open>rb\<close> with these properties: the
  histogram has one entry per column, the sum of that column over the rows from
  \<open>height div 2\<close> to the bottom; \<open>lb\<close> is the first index of the maximum of the entries
  left of the midpoint \<open>width div 2\<close>, and \<open>rb\<close> is the first index of the maximum among
  the entries from the midpoint on (the argmax of the right half plus the midpoint).
\<close>

theorem cold_start_centres_first_maximum:
  assumes "2 \<le> width img"
  shows "\<exists>lb rb.
           windowHistograms img =
             (let s = foldl (window_step img (nonzeroy_of img) (nonzerox_of img))
                        \<lparr> leftx_current = int lb, rightx_current = int rb,
                          left_lane_inds = [], right_lane_inds = [] \<rparr> [0 ..< 9]
              in Inr (take_inds (nonzerox_of img) (concat (left_lane_inds s)),
                      take_inds (nonzeroy_of img) (concat (left_lane_inds s)),
                      take_inds (nonzerox_of img) (concat (right_lane_inds s)),
                      take_inds (nonzeroy_of img) (concat (right_lane_inds s)))) \<and>
           histogram_bases img = Inr (lb, rb) \<and>
           length (histogram img) = width img \<and>
           (\<forall>x<width img. histogram img ! x =
              (\<Sum>y = height img div 2 ..< height img. pix img y x)) \<and>
           lb < width img div 2 \<and>
           (\<forall>j<width img div 2. histogram img ! j \<le> histogram img ! lb) \<and>
           (\<forall>j<lb. histogram img ! j < histogram img ! lb) \<and>
           width img div 2 \<le> rb \<and> rb < width img \<and>
           (\<forall>j. width img div 2 \<le> j \<and> j < width img \<longrightarrow>
                 histogram img ! j \<le> histogram img ! rb) \<and>
           (\<forall>j. width img div 2 \<le> j \<and> j < rb \<longrightarrow> histogram img ! j < histogram img ! rb)"
proof -
  from histogram_bases_spec [OF assms] obtain lb rb where
    b: "histogram_bases img = Inr (lb, rb) \<and>
        length (histogram img) = width img \<and>
        (\<forall>x<width img. histogram img ! x =
           (\<Sum>y = height img div 2 ..< height img. pix img y x)) \<and>
        lb < width img div 2 \<and>
        (\<forall>j<width img div 2. histogram img ! j \<le> histogram img ! lb) \<and>
        (\<forall>j<lb. histogram img ! j < histogram img ! lb) \<and>
        width img div 2 \<le> rb \<and> rb < width img \<and>
        (\<forall>j. width img div 2 \<le> j \<and> j < width img \<longrightarrow>
              histogram img ! j \<le> histogram img ! rb) \<and>
        (\<forall>j. width img div 2 \<le> j \<and> j < rb \<longrightarrow> histogram img ! j < histogram img ! rb)"
    by blast
  then have e: "histogram_bases img = Inr (lb, rb)" by simp
  have w: "windowHistograms img =
             (let s = foldl (window_step img (nonzeroy_of img) (nonzerox_of img))
                        \<lparr> leftx_current = int lb, rightx_current = int rb,
                          left_lane_inds = [], right_lane_inds = [] \<rparr> [0 ..< 9]
              in Inr (take_inds (nonzerox_of img) (concat (left_lane_inds s)),
                      take_inds (nonzeroy_of img) (concat (left_lane_inds s)),
                      take_inds (nonzerox_of img) (concat (right_lane_inds s)),
                      take_inds (nonzeroy_of img) (concat (right_lane_inds s))))"
    by (simp only: windowHistograms_def e run_windows_def nwindows_def sum.case prod.case Let_def)
  from w b show ?thesis by blast
qed

theorem cold_start_centres_first_maximum_witness:
  "2 \<le> width curve_frame \<and> histogram curve_frame = [1, 1, 0, 1] \<and>
   histogram_bases curve_frame = Inr (0, 3)"
proof -
  have h: "2 \<le> width curve_frame" by (simp add: curve_frame_def)
  have hist: "histogram curve_frame = [1, 1, 0, 1]"
    by (simp add: histogram_def curve_frame_def upt_rec)
  from cold_start_centres_first_maximum [OF h] obtain lb rb where
    b: "histogram_bases curve_frame = Inr (lb, rb)"
       "lb < width curve_frame div 2"
       "\<forall>j<lb. histogram curve_frame ! j < histogram curve_frame ! lb"
       "width curve_frame div 2 \<le> rb" "rb < width curve_frame"
       "\<forall>j. width curve_frame div 2 \<le> j \<and> j < width curve_frame \<longrightarrow>
             histogram curve_frame ! j \<le> histogram curve_frame ! rb"
    by blast
  have w: "width curve_frame = 4" by (simp add: curve_frame_def)
  have "lb = 0"
  proof (rule ccontr)
    assume "lb \<noteq> 0"
    then have lb1: "lb = 1" using b(2) w by simp
    then have "histogram curve_frame ! 0 < histogram curve_frame ! lb" using b(3) by blast
    with lb1 hist show False by simp
  qed
  moreover have "rb = 3"
  proof -
    have "rb = 2 \<or> rb = 3" using b(4,5) w by auto
    moreover have "histogram curve_frame ! 3 \<le> histogram curve_frame ! rb"
      using b(6) w by simp
    ultimately show ?thesis using hist by auto
  qed
  ultimately show ?thesis using h hist b(1) by simp
qed


lemma histogram_bases_narrow:
  assumes "width img < 2"
  shows "histogram_bases img = Inl ValueError"
proof -
  have "width img div 2 = 0" using assms by simp
  then show ?thesis by (simp add: histogram_bases_def Let_def histogram_length argmax_def)
qed

text \<open>
  C7, as the specification states it, fails on a frame with a single column: the left
  half of the histogram is empty, \<^verbatim>\<open>np.argmax\<close> raises ValueError, and no centre is
  computed.
\<close>

theorem single_column_frame_counterexample:
  "width narrow_frame = 1 \<and> windowHistograms narrow_frame = Inl ValueError"
proof -
  have w: "width narrow_frame = 1" by (simp add: narrow_frame_def)
  then have "width narrow_frame < 2" by simp
  from histogram_bases_narrow [OF this] w show ?thesis by (simp add: windowHistograms_def)
qed

subsection \<open>The model of \<^verbatim>\<open>np.polyfit\<close> is a least-squares fit\<close>

text \<open>
  With a regular system the coefficients solve the normal equations of the least-squares
  problem; in the rank-deficient cases the fitted parabola passes through the mean of the
  values at each abscissa, which is where the squared error is minimal.
\<close>

lemma polyfit_full_normal_equations:
  assumes "det3 (power_sum 4 ts) (power_sum 3 ts) (power_sum 2 ts)
                (power_sum 3 ts) (power_sum 2 ts) (power_sum 1 ts)
                (power_sum 2 ts) (power_sum 1 ts) (power_sum 0 ts) \<noteq> 0"
    and "polyfit_full ts xs = (a, b, c)"
  shows "power_sum 4 ts * a + power_sum 3 ts * b + power_sum 2 ts * c = moment 2 ts xs"
    and "power_sum 3 ts * a + power_sum 2 ts * b + power_sum 1 ts * c = moment 1 ts xs"
    and "power_sum 2 ts * a + power_sum 1 ts * b + power_sum 0 ts * c = moment 0 ts xs"
proof -
  let ?d = "det3 (power_sum 4 ts) (power_sum 3 ts) (power_sum 2 ts)
                (power_sum 3 ts) (power_sum 2 ts) (power_sum 1 ts)
                (power_sum 2 ts) (power_sum 1 ts) (power_sum 0 ts)"
  have abc: "a = det3 (moment 2 ts xs) (power_sum 3 ts) (power_sum 2 ts)
                      (moment 1 ts xs) (power_sum 2 ts) (power_sum 1 ts)
                      (moment 0 ts xs) (power_sum 1 ts) (power_sum 0 ts) / ?d"
            "b = det3 (power_sum 4 ts) (moment 2 ts xs) (power_sum 2 ts)
                      (power_sum 3 ts) (moment 1 ts xs) (power_sum 1 ts)
                      (power_sum 2 ts) (moment 0 ts xs) (power_sum 0 ts) / ?d"
            "c = det3 (power_sum 4 ts) (power_sum 3 ts) (moment 2 ts xs)
                      (power_sum 3 ts) (power_sum 2 ts) (moment 1 ts xs)
                      (power_sum 2 ts) (power_sum 1 ts) (moment 0 ts xs) / ?d"
    using assms(2) by (simp_all add: polyfit_full_def Let_def)
  show "power_sum 4 ts * a + power_sum 3 ts * b + power_sum 2 ts * c = moment 2 ts xs"
    unfolding abc using assms(1) by (simp add: field_simps) (simp add: det3_def algebra_simps)
  show "power_sum 3 ts * a + power_sum 2 ts * b + power_sum 1 ts * c = moment 1 ts xs"
    unfolding abc using assms(1) by (simp add: field_simps) (simp add: det3_def algebra_simps)
  show "power_sum 2 ts * a + power_sum 1 ts * b + power_sum 0 ts * c = moment 0 ts xs"
    unfolding abc using assms(1) by (simp add: field_simps) (simp add: det3_def algebra_simps)
qed

lemma polyfit_one_at:
  "t \<noteq> 0 \<Longrightarrow> polyval2 (polyfit_one t xs) t = sum_list xs / real (length xs)"
  by (simp add: polyfit_one_def polyval2_def Let_def power2_eq_square)

lemma polyfit_two_at:
  assumes "u \<noteq> v"
  shows "polyval2 (polyfit_two u v ts xs) u = mean_at u ts xs"
    and "polyval2 (polyfit_two u v ts xs) v = mean_at v ts xs"
proof -
  define slope where "slope = (mean_at v ts xs - mean_at u ts xs) / (v - u)"
  define alpha where "alpha = fst (polyfit_two u v ts xs)"
  have pf: "polyfit_two u v ts xs =
              (alpha, slope + alpha * (- (u + v)), mean_at u ts xs - slope * u + alpha * (u * v))"
    by (simp add: alpha_def polyfit_two_def Let_def slope_def)
  have s: "slope * (v - u) = mean_at v ts xs - mean_at u ts xs"
    using assms by (simp add: slope_def)
  show "polyval2 (polyfit_two u v ts xs) u = mean_at u ts xs"
    unfolding pf by (simp add: polyval2_def algebra_simps power2_eq_square)
  have "polyval2 (polyfit_two u v ts xs) v = mean_at u ts xs + slope * (v - u)"
    unfolding pf by (simp add: polyval2_def algebra_simps power2_eq_square)
  then show "polyval2 (polyfit_two u v ts xs) v = mean_at v ts xs"
    by (simp add: s)
qed

subsection \<open>Running the functions on the example frame\<close>

lemma upt_0_9: "[0..<9] = [0, 1, 2, 3, 4, 5, 6, 7, 8::nat]"
  by (simp add: upt_rec)

lemma upt_0_4: "[0..<4] = [0, 1, 2, 3::nat]"
  by (simp add: upt_rec)

lemma upt_0_3: "[0..<3] = [0, 1, 2::nat]"
  by (simp add: upt_rec)


lemma curve_frame_shape: "height curve_frame = 9" "width curve_frame = 4"
  by (simp_all add: curve_frame_def)

lemma nonzero_curve_frame: "nonzero curve_frame = [(6, 0), (7, 1), (8, 3)]"
  by (simp add: nonzero_def curve_frame_def upt_0_9 upt_0_4)

lemma nonzeroy_curve_frame: "nonzeroy_of curve_frame = [6, 7, 8]"
  by (simp add: nonzeroy_of_def nonzero_curve_frame)

lemma nonzerox_curve_frame: "nonzerox_of curve_frame = [0, 1, 3]"
  by (simp add: nonzerox_of_def nonzero_curve_frame)

lemma histogram_bases_curve_frame: "histogram_bases curve_frame = Inr (0, 3)"
  by (simp add: histogram_bases_def histogram_def curve_frame_def upt_rec argmax_def)

lemma run_windows_curve_frame:
  "run_windows curve_frame 0 3 =
     \<lparr> leftx_current = 0, rightx_current = 3,
       left_lane_inds = [[2], [1], [0], [], [], [], [], [], []],
       right_lane_inds = [[2], [1], [0], [], [], [], [], [], []] \<rparr>"
  by (simp add: run_windows_def nonzeroy_curve_frame nonzerox_curve_frame nwindows_def
      window_step_def good_inds_def window_margin_def minpix_def upt_0_9 upt_0_3
      curve_frame_shape Let_def)

lemma windowHistograms_curve_frame:
  "windowHistograms curve_frame = Inr ([3, 1, 0], [8, 7, 6], [3, 1, 0], [8, 7, 6])"
  by (simp add: windowHistograms_def histogram_bases_curve_frame run_windows_curve_frame
      take_inds_def nonzeroy_curve_frame nonzerox_curve_frame)

lemma polyfit_exact_curve_pixels: "polyfit_exact [8, 7, 6] [3, 1, 0] = Inr (1 / 2, - 11 / 2, 15)"
  by (simp add: polyfit_exact_def polyfit_full_def power_sum_def moment_def det3_def Let_def)

lemma polyfit_exact_curve_metric:
  "polyfit_exact (map (\<lambda>y. real_of_int y * ym_per_pix) [8, 7, 6])
            (map (\<lambda>x. real_of_int x * xm_per_pix) [3, 1, 0])
   = Inr (1332 / 875, - (1221 / 1750), 111 / 1400)"
  by (simp add: polyfit_exact_def polyfit_full_def power_sum_def moment_def det3_def
      ym_per_pix_def xm_per_pix_def Let_def power_divide)

lemma fit_poly_curve_frame:
  "fit_poly polyfit_exact (9, 4) [3, 1, 0] [8, 7, 6] [3, 1, 0] [8, 7, 6] =
     Inr ([15, 10, 6, 3, 1, 0, 0, 1, 3], [15, 10, 6, 3, 1, 0, 0, 1, 3],
          (1332 / 875, - (1221 / 1750), 111 / 1400),
          (1332 / 875, - (1221 / 1750), 111 / 1400),
          [0, 1, 2, 3, 4, 5, 6, 7, 8])"
  using polyfit_exact_curve_pixels polyfit_exact_curve_metric
  by (simp add: fit_poly_def rbind_def linspace_rows_def upt_0_9 polyval2_def)

lemma np_max_eq_Max: "ploty \<noteq> [] \<Longrightarrow> np_max ploty = Max (set ploty)"
  by (cases ploty) (simp_all add: np_max_def Max.set_eq_fold [symmetric])


subsection \<open>The range of float64 in the curvature\<close>

lemma dbl_max_large: "10 ^ 20 \<le> dbl_max"
  by (simp add: dbl_max_def)

lemma dbl_max_less: "dbl_max < 2 ^ 1024"
  by (simp add: dbl_max_def)

lemma radius_formula_nonneg: "0 \<le> radius_formula a b y"
  by (simp add: radius_formula_def)

lemma curverad_no_overflow:
  assumes "a \<noteq> 0" and "no_overflow a b y"
  shows "curverad (a, b, c) y = Some (radius_formula a b y)"
proof -
  have r: "\<bar>radius_formula a b y\<bar> \<le> dbl_max"
    using assms(2) radius_formula_nonneg [of a b y] by (simp add: no_overflow_def)
  have p: "\<bar>(1 + (2 * a * y + b)\<^sup>2) powr 1.5\<bar> \<le> dbl_max"
    using assms(2) by (simp add: no_overflow_def)
  have q: "\<bar>1 + (2 * a * y + b)\<^sup>2\<bar> \<le> dbl_max"
    using assms(2) by (simp add: no_overflow_def)
  show ?thesis
    using assms p q r unfolding no_overflow_def curverad_def fl_def
    by (simp add: radius_formula_def)
qed

lemma powr_three_halves_le_square:
  assumes "1 \<le> (x::real)"
  shows "x powr 1.5 \<le> x ^ 2"
proof -
  have "x powr 1.5 \<le> x powr 2" using assms by (intro powr_mono) simp_all
  also have "\<dots> = x ^ 2" using assms by (simp add: powr_numeral)
  finally show ?thesis .
qed

lemma no_overflow_small:
  assumes "1 / 1000 \<le> \<bar>2 * a\<bar>" and "\<bar>2 * a\<bar> \<le> 1000" and "\<bar>2 * a * y\<bar> \<le> 1000"
    and "\<bar>2 * a * y + b\<bar> \<le> 1000"
  shows "no_overflow a b y \<and> radius_formula a b y \<le> 10 ^ 18"
proof -
  let ?t = "2 * a * y + b"
  have t2: "?t ^ 2 \<le> 1000 ^ 2"
    using assms(4) by (metis abs_le_square_iff abs_numeral)
  then have t2': "?t ^ 2 \<le> 10 ^ 6" by simp
  have b1: "1 \<le> 1 + ?t ^ 2" by simp
  have b2: "1 + ?t ^ 2 \<le> 10 ^ 7" using t2' by simp
  have "(1 + ?t ^ 2) powr 1.5 \<le> (1 + ?t ^ 2) ^ 2" using b1 by (rule powr_three_halves_le_square)
  also have "\<dots> \<le> (10 ^ 7) ^ 2" using b1 b2 by (intro power_mono) simp_all
  finally have n: "(1 + ?t ^ 2) powr 1.5 \<le> 10 ^ 14" by simp
  have n0: "0 \<le> (1 + ?t ^ 2) powr 1.5" by simp
  have pos: "0 < \<bar>2 * a\<bar>" using assms(1) by linarith
  have "radius_formula a b y \<le> 10 ^ 14 / \<bar>2 * a\<bar>"
    unfolding radius_formula_def using n pos by (intro divide_right_mono) simp_all
  also have "\<dots> \<le> 10 ^ 14 / (1 / 1000)"
    using assms(1) by (intro divide_left_mono) simp_all
  finally have r: "radius_formula a b y \<le> 10 ^ 17" by simp
  have d: "(10::real) ^ 20 \<le> dbl_max" by (rule dbl_max_large)
  show ?thesis
    unfolding no_overflow_def using assms t2' b2 n r d by simp
qed

lemma dbl_max_nonneg: "0 \<le> dbl_max"
  by (simp add: dbl_max_def)

lemma curverad_zero: "curverad (0, b, c) y = None"
  using dbl_max_nonneg by (auto simp: curverad_def fl_def split: if_splits)


lemma measure_curvature_real_left_none:
  "curverad left_fit (np_max ploty) = None \<Longrightarrow>
   measure_curvature_real ploty left_fit right_fit = Inl ValueError"
  by (simp add: measure_curvature_real_def Let_def)

lemma measure_curvature_real_right_none:
  "curverad right_fit (np_max ploty) = None \<Longrightarrow>
   measure_curvature_real ploty left_fit right_fit = Inl ValueError"
  by (simp add: measure_curvature_real_def Let_def split: option.splits)

lemma curvature_is_floor_of_average_radius_aux:
  assumes "al \<noteq> 0" and "ar \<noteq> 0" and "ploty \<noteq> []"
    and "no_overflow al bl (Max (set ploty))" and "no_overflow ar br (Max (set ploty))"
    and "radius_formula al bl (Max (set ploty)) + radius_formula ar br (Max (set ploty)) \<le> dbl_max"
  shows "measure_curvature_real ploty (al, bl, cl) (ar, br, cr) =
           Inr \<lfloor>(radius_formula al bl (Max (set ploty)) +
                 radius_formula ar br (Max (set ploty))) / 2\<rfloor>"
proof -
  let ?y = "Max (set ploty)"
  have l: "curverad (al, bl, cl) ?y = Some (radius_formula al bl ?y)"
    using assms(1,4) by (rule curverad_no_overflow)
  have r: "curverad (ar, br, cr) ?y = Some (radius_formula ar br ?y)"
    using assms(2,5) by (rule curverad_no_overflow)
  have s: "fl (radius_formula al bl ?y + radius_formula ar br ?y) =
             Some (radius_formula al bl ?y + radius_formula ar br ?y)"
    using assms(6) radius_formula_nonneg [of al bl ?y] radius_formula_nonneg [of ar br ?y]
    by (simp add: fl_def)
  show ?thesis
    using assms(3) l r s by (simp add: measure_curvature_real_def Let_def np_max_eq_Max)
qed

lemma curvature_curve_frame:
  "measure_curvature_real [0, 1, 2, 3, 4, 5, 6, 7, 8]
     (1332 / 875, - (1221 / 1750), 111 / 1400) (1332 / 875, - (1221 / 1750), 111 / 1400)
   = Inr \<lfloor>radius_formula (1332 / 875) (- (1221 / 1750)) 8\<rfloor>"
proof -
  have n: "no_overflow (1332 / 875) (- (1221 / 1750)) 8 \<and>
           radius_formula (1332 / 875) (- (1221 / 1750)) 8 \<le> 10 ^ 18"
    by (rule no_overflow_small) simp_all
  have m: "Max (set [0, 1, 2, 3, 4, 5, 6, 7, 8 :: real]) = 8" by simp
  have "radius_formula (1332 / 875) (- (1221 / 1750)) 8 +
        radius_formula (1332 / 875) (- (1221 / 1750)) 8 \<le> dbl_max"
    using n [THEN conjunct2] dbl_max_large by simp
  from curvature_is_floor_of_average_radius_aux [of "1332 / 875" "1332 / 875"
      "[0, 1, 2, 3, 4, 5, 6, 7, 8]" "- (1221 / 1750)" "- (1221 / 1750)", unfolded m, OF _ _ _ _ _ this]
    n show ?thesis by simp
qed

lemma detectLane_measure_curve_frame:
  "detectLane_measure polyfit_exact None curve_frame (0, 0, 0) (0, 0, 0) =
     Inr ([15, 10, 6, 3, 1, 0, 0, 1, 3], [15, 10, 6, 3, 1, 0, 0, 1, 3],
          [0, 1, 2, 3, 4, 5, 6, 7, 8],
          \<lfloor>radius_formula (1332 / 875) (- (1221 / 1750)) 8\<rfloor>,
          (640 - (3 + 3) / 2) * xm_per_pix)"
  by (simp add: detectLane_measure_def rbind_def windowHistograms_curve_frame curve_frame_shape
      fit_poly_curve_frame curvature_curve_frame lane_offset_def)


lemma detectLane_curve_frame:
  "fst (detectLane polyfit_exact no_draw initial_globals (store_with curve_frame) 0 (0, 0, 0) (0, 0, 0)) =
     Inr (1, (0, 0, 0), (0, 0, 0),
          \<lfloor>radius_formula (1332 / 875) (- (1221 / 1750)) 8\<rfloor>,
          (640 - (3 + 3) / 2) * xm_per_pix)"
  by (simp add: detectLane_def store_with_def lookup_binary_warped_def initial_globals_def
      detectLane_measure_curve_frame alloc_def Let_def)

subsection \<open>The tracking state across frames\<close>

lemma detectLane_returns_prior_fit_aux:
  "detectLane polyfit fillPoly g h image_ref left_fit right_fit = (Inr (out_img, a, b, c, d), h') \<Longrightarrow>
   a = left_fit \<and> b = right_fit"
  by (auto simp: detectLane_def Let_def
      split: option.splits ndarray.splits sum.splits prod.splits)

text \<open>
  C1. The specification says that after a frame whose search and fit succeed, the fit pair that
  \<open>detectLane\<close> returns, and that \<open>process_image\<close> stores, is the fit of this frame. What
  the code does: whenever \<open>detectLane\<close> returns normally, the pair it returns is the pair
  it was called with; the fit of the frame is not part of the result.
\<close>

theorem detectLane_returns_prior_fit:
  assumes "detectLane polyfit fillPoly g h image_ref left_fit right_fit =
             (Inr (out_img, left_fit', right_fit', curvature, offset), h')"
  shows "left_fit' = left_fit \<and> right_fit' = right_fit"
  using assms
  by (auto simp: detectLane_def Let_def
      split: option.splits ndarray.splits sum.splits prod.splits)

theorem detectLane_returns_prior_fit_witness:
  "fst (detectLane polyfit_exact no_draw initial_globals (store_with curve_frame) 0 (0, 0, 0) (0, 0, 0)) =
     Inr (1, (0, 0, 0), (0, 0, 0),
          \<lfloor>radius_formula (1332 / 875) (- (1221 / 1750)) 8\<rfloor>,
          (640 - (3 + 3) / 2) * xm_per_pix) \<and>
   windowHistograms curve_frame = Inr ([3, 1, 0], [8, 7, 6], [3, 1, 0], [8, 7, 6]) \<and>
   polyfit_exact [8, 7, 6] [3, 1, 0] = Inr (1 / 2, - 11 / 2, 15)"
proof -
  let ?call = "detectLane polyfit_exact no_draw initial_globals (store_with curve_frame) 0 (0, 0, 0) (0, 0, 0)"
  obtain res h' where call: "?call = (res, h')" by (cases ?call)
  with detectLane_curve_frame obtain out lf rf c off where
    res: "res = Inr (out, lf, rf, c, off)"
    and vals: "out = 1" "c = \<lfloor>radius_formula (1332 / 875) (- (1221 / 1750)) 8\<rfloor>"
      "off = (640 - (3 + 3) / 2) * xm_per_pix"
    by auto
  from detectLane_returns_prior_fit [OF call [unfolded res]]
  have "lf = (0, 0, 0) \<and> rf = (0, 0, 0)" .
  with call res vals windowHistograms_curve_frame polyfit_exact_curve_pixels show ?thesis by simp
qed

lemma process_image_keeps_globals:
  "fst (snd (process_image polyfit pre fillPoly frame (g, h))) = g"
proof -
  obtain r h1 where a: "alloc (Gray (pre frame)) h = (r, h1)" by (cases "alloc (Gray (pre frame)) h")
  obtain res h2 where d: "detectLane polyfit fillPoly g h1 r (g_left_fit g) (g_right_fit g) = (res, h2)"
    by (cases "detectLane polyfit fillPoly g h1 r (g_left_fit g) (g_right_fit g)")
  show ?thesis
  proof (cases res)
    case (Inl e)
    with a d show ?thesis by (simp add: process_image_def)
  next
    case (Inr v)
    obtain out lf rf c off where v: "v = (out, lf, rf, c, off)" by (cases v)
    from detectLane_returns_prior_fit_aux [of polyfit fillPoly g h1 r "g_left_fit g" "g_right_fit g"]
      d Inr v
    have "lf = g_left_fit g \<and> rf = g_right_fit g" by simp
    with a d Inr v show ?thesis by (simp add: process_image_def)
  qed
qed


subsection \<open>Curvature\<close>




text \<open>
  C4, as the code has it. There is no clamp and no sentinel: with a non-empty plotting
  sequence, \<open>measure_curvature_real\<close> raises ValueError whenever the leading coefficient
  of the left or of the right fit is 0 (the radius is not finite and the conversion to an
  integer fails).
\<close>

theorem zero_leading_coefficient_raises:
  assumes "ploty \<noteq> []" and "fst left_fit = 0 \<or> fst right_fit = 0"
  shows "measure_curvature_real ploty left_fit right_fit = Inl ValueError"
proof -
  obtain la lb lc ra rb rc where f: "left_fit = (la, lb, lc)" "right_fit = (ra, rb, rc)"
    by (cases left_fit, cases right_fit) auto
  from assms(2) show ?thesis
  proof
    assume "fst left_fit = 0"
    then have "curverad left_fit (np_max ploty) = None" by (simp add: f curverad_zero)
    then show ?thesis by (rule measure_curvature_real_left_none)
  next
    assume "fst right_fit = 0"
    then have "curverad right_fit (np_max ploty) = None" by (simp add: f curverad_zero)
    then show ?thesis by (rule measure_curvature_real_right_none)
  qed
qed

theorem zero_leading_coefficient_raises_witness:
  "linspace_rows 9 \<noteq> [] \<and>
   measure_curvature_real (linspace_rows 9) (0, 1 / 10, 1) (1 / 2, 0, 2) = Inl ValueError \<and>
   measure_curvature_real (linspace_rows 9) (1 / 2, 0, 2) (0, 1 / 10, 1) = Inl ValueError"
proof -
  have c: "linspace_rows 9 \<noteq> []" by (simp add: linspace_rows_def)
  from zero_leading_coefficient_raises [OF c, of "(0, 1 / 10, 1)" "(1 / 2, 0, 2)"]
    zero_leading_coefficient_raises [OF c, of "(1 / 2, 0, 2)" "(0, 1 / 10, 1)"]
  show ?thesis using c by simp
qed

text \<open>
  C4, as the specification states it, fails on the straight-line fit \<open>(0, 0, 500)\<close> of the
  specification's own test: over the 720 rows of a frame the call does not return a
  radius, it raises.
\<close>

theorem straight_line_not_clamped_counterexample:
  "measure_curvature_real (linspace_rows 720) (0, 0, 500) (0, 0, 500) = Inl ValueError"
  by (rule measure_curvature_real_left_none) (rule curverad_zero)

subsection \<open>Lateral offset\<close>

text \<open>
  The offset is measured from column 640 whatever the width of the frame; for a frame
  that is 1280 wide this is the centre, the offset is 0 exactly when the lane centre is
  the frame centre, and it is positive exactly when the frame centre lies to the right
  of the lane centre.
\<close>

lemma lane_offset_from_640:
  assumes "left_fitx \<noteq> []" and "right_fitx \<noteq> []"
  shows "lane_offset left_fitx right_fitx =
           Inr ((1280 / 2 - (last left_fitx + last right_fitx) / 2) * (3.7 / 700))"
  using assms by (simp add: lane_offset_def xm_per_pix_def)

lemma lane_offset_sign:
  assumes "lane_offset left_fitx right_fitx = Inr offset"
  shows "(offset = 0) = ((last left_fitx + last right_fitx) / 2 = 640)"
    and "(0 < offset) = ((last left_fitx + last right_fitx) / 2 < 640)"
proof -
  from assms have o: "offset = (640 - (last left_fitx + last right_fitx) / 2) * (37 / 7000)"
    by (auto simp: lane_offset_def xm_per_pix_def split: if_splits)
  show "(offset = 0) = ((last left_fitx + last right_fitx) / 2 = 640)"
    unfolding o by auto
  show "(0 < offset) = ((last left_fitx + last right_fitx) / 2 < 640)"
    unfolding o by (auto simp: zero_less_mult_iff)
qed

text \<open>
  C5. The specification takes the reference point to be the horizontal centre \<open>W/2\<close> of the frame.
  On the example frame, 4 columns wide, both fitted curves are at \<open>x = 3\<close> in the bottom
  row; the code reports \<open>(640 - 3) * xm_per_pix\<close>, the specification's formula gives
  \<open>(4/2 - 3) * xm_per_pix\<close>.
\<close>

theorem offset_reference_is_column_640:
  "width curve_frame = 4 \<and>
   detectLane_measure polyfit_exact None curve_frame (0, 0, 0) (0, 0, 0) =
     Inr ([15, 10, 6, 3, 1, 0, 0, 1, 3], [15, 10, 6, 3, 1, 0, 0, 1, 3],
          [0, 1, 2, 3, 4, 5, 6, 7, 8],
          \<lfloor>radius_formula (1332 / 875) (- (1221 / 1750)) 8\<rfloor>,
          (640 - (3 + 3) / 2) * xm_per_pix) \<and>
   (640 - (3 + 3) / 2) * xm_per_pix \<noteq> (real (width curve_frame) / 2 - (3 + 3) / 2) * xm_per_pix"
  by (simp add: detectLane_measure_curve_frame curve_frame_shape xm_per_pix_def)


subsection \<open>The input frame is only read\<close>

lemma alloc_other: "r \<noteq> next_free h \<Longrightarrow> cells (snd (alloc v h)) r = cells h r"
  by (simp add: alloc_def)

lemma alloc_fst: "fst (alloc v h) = next_free h"
  by (simp add: alloc_def)

lemma fill_at_other: "r \<noteq> out \<Longrightarrow> cells (fill_at fillPoly out pts colour h) r = cells h r"
  by (simp add: fill_at_def split: option.splits ndarray.splits)

lemma detectLane_store:
  "snd (detectLane polyfit fillPoly g h image_ref left_fit right_fit) = h \<or>
   (\<exists>v p1 c1 p2 c2 p3 c3.
      snd (detectLane polyfit fillPoly g h image_ref left_fit right_fit) =
        fill_at fillPoly (next_free h) p3 c3
          (fill_at fillPoly (next_free h) p2 c2
             (fill_at fillPoly (next_free h) p1 c1 (snd (alloc v h)))))"
proof (cases "cells h image_ref")
  case None
  then show ?thesis by (simp add: detectLane_def)
next
  case (Some a)
  show ?thesis
  proof (cases a)
    case (Colour im)
    with Some show ?thesis by (simp add: detectLane_def)
  next
    case (Gray img)
    show ?thesis
    proof (cases "detectLane_measure polyfit (lookup_binary_warped g h) img left_fit right_fit")
      case (Inl e)
      with Some Gray show ?thesis by (simp add: detectLane_def)
    next
      case (Inr m)
      obtain lx rx py c off where m: "m = (lx, rx, py, c, off)" by (cases m)
      have "\<exists>v p1 c1 p2 c2 p3 c3.
        snd (detectLane polyfit fillPoly g h image_ref left_fit right_fit) =
          fill_at fillPoly (next_free h) p3 c3
            (fill_at fillPoly (next_free h) p2 c2
               (fill_at fillPoly (next_free h) p1 c1 (snd (alloc v h))))"
        using Some Gray Inr m
        by (simp add: detectLane_def Let_def alloc_def) blast
      then show ?thesis by blast
    qed
  qed
qed

lemma detectLane_out_fresh:
  "fst (detectLane polyfit fillPoly g h image_ref left_fit right_fit) = Inr res \<Longrightarrow>
   fst res = next_free h"
  by (auto simp: detectLane_def Let_def alloc_def
      split: option.splits ndarray.splits sum.splits prod.splits)

text \<open>
  In the model the drawing can change a frame: painting into the reference of the example
  frame replaces it.
\<close>

lemma fill_at_changes_frame:
  "cells (fill_at flood 0 pts (255, 0, 0) (store_with curve_frame)) 0 \<noteq> Some (Gray curve_frame)"
proof
  assume "cells (fill_at flood 0 pts (255, 0, 0) (store_with curve_frame)) 0 =
            Some (Gray curve_frame)"
  then have "curve_frame \<lparr> pix := (\<lambda>y x. 255) \<rparr> = curve_frame"
    by (simp add: fill_at_def store_with_def flood_def)
  then have "pix (curve_frame \<lparr> pix := (\<lambda>y x. 255) \<rparr>) 0 0 = pix curve_frame 0 0" by simp
  then show False by (simp add: curve_frame_def)
qed

text \<open>
  C10. A call of \<open>detectLane\<close> leaves every array that existed before the call as it
  was, in particular the frame it is given: search, fit, curvature and offset only read,
  and the polygons are drawn into the array that \<^verbatim>\<open>np.dstack(...)*255\<close> allocates during
  the call, whose reference is new and is the one returned as \<^verbatim>\<open>out_img\<close>. This holds
  for calls that return and for calls that raise, and for every rasteriser.
\<close>

theorem detectLane_leaves_existing_arrays:
  assumes "r < next_free h"
  shows "cells (snd (detectLane polyfit fillPoly g h image_ref left_fit right_fit)) r = cells h r \<and>
         (case fst (detectLane polyfit fillPoly g h image_ref left_fit right_fit) of
            Inl e \<Rightarrow> True
          | Inr res \<Rightarrow> fst res = next_free h \<and> fst res \<noteq> r)"
proof -
  have ne: "r \<noteq> next_free h" using assms by simp
  have one: "cells (snd (detectLane polyfit fillPoly g h image_ref left_fit right_fit)) r = cells h r"
    using detectLane_store [of polyfit fillPoly g h image_ref left_fit right_fit]
  proof
    assume "snd (detectLane polyfit fillPoly g h image_ref left_fit right_fit) = h"
    then show ?thesis by simp
  next
    assume "\<exists>v p1 c1 p2 c2 p3 c3.
      snd (detectLane polyfit fillPoly g h image_ref left_fit right_fit) =
        fill_at fillPoly (next_free h) p3 c3
          (fill_at fillPoly (next_free h) p2 c2
             (fill_at fillPoly (next_free h) p1 c1 (snd (alloc v h))))"
    then show ?thesis using ne by (auto simp: fill_at_other alloc_other)
  qed
  have two: "(case fst (detectLane polyfit fillPoly g h image_ref left_fit right_fit) of
                Inl e \<Rightarrow> True
              | Inr res \<Rightarrow> fst res = next_free h \<and> fst res \<noteq> r)"
    using detectLane_out_fresh [of polyfit fillPoly g h image_ref left_fit right_fit] ne
    by (auto split: sum.splits)
  from one two show ?thesis by simp
qed

theorem detectLane_leaves_existing_arrays_witness:
  "0 < next_free (store_with curve_frame) \<and>
   cells (fill_at flood 0 [] (255, 0, 0) (store_with curve_frame)) 0 \<noteq> Some (Gray curve_frame) \<and>
   cells (snd (detectLane polyfit_exact flood initial_globals (store_with curve_frame) 0
                 (0, 0, 0) (0, 0, 0))) 0
     = Some (Gray curve_frame) \<and>
   cells (snd (detectLane polyfit_exact flood initial_globals (store_with curve_frame) 0
                 (0, 0, 0) (0, 0, 0))) 1
     = Some (Colour \<lparr> height3 = 9, width3 = 4, pix3 = (\<lambda>y x. (0, 255, 0)) \<rparr>)"
proof -
  have a: "0 < next_free (store_with curve_frame)" by (simp add: store_with_def)
  have b: "cells (store_with curve_frame) 0 = Some (Gray curve_frame)"
    by (simp add: store_with_def)
  have c: "cells (snd (detectLane polyfit_exact flood initial_globals (store_with curve_frame) 0
                         (0, 0, 0) (0, 0, 0))) 1
             = Some (Colour \<lparr> height3 = 9, width3 = 4, pix3 = (\<lambda>y x. (0, 255, 0)) \<rparr>)"
    by (simp add: detectLane_def store_with_def lookup_binary_warped_def initial_globals_def
        detectLane_measure_curve_frame alloc_def Let_def fill_at_def flood_def dstack255_def
        curve_frame_shape)
  from detectLane_leaves_existing_arrays [OF a, of polyfit_exact flood initial_globals 0
      "(0, 0, 0)" "(0, 0, 0)", THEN conjunct1]
  show ?thesis using a b c fill_at_changes_frame [of "[]"] by simp
qed

lemma process_image_leaves_frame:
  "cells (snd (snd (process_image polyfit pre fillPoly frame (g, h)))) (next_free h) =
     Some (Gray (pre frame))"
proof -
  let ?h1 = "snd (alloc (Gray (pre frame)) h)"
  have n: "next_free h < next_free ?h1" by (simp add: alloc_def)
  have c: "cells ?h1 (next_free h) = Some (Gray (pre frame))" by (simp add: alloc_def)
  have "snd (snd (process_image polyfit pre fillPoly frame (g, h))) =
          snd (detectLane polyfit fillPoly g ?h1 (next_free h) (g_left_fit g) (g_right_fit g))"
    by (simp add: process_image_def alloc_def split: prod.splits sum.splits)
  then show ?thesis
    using detectLane_store [of polyfit fillPoly g ?h1 "next_free h" "g_left_fit g" "g_right_fit g"] n c
    by (auto simp: fill_at_other alloc_other)
qed


subsection \<open>The non-zero pixels of a frame\<close>

lemma nonzero_filter_product:
  "nonzero img =
     filter (\<lambda>p. pix img (fst p) (snd p) \<noteq> 0) (List.product [0 ..< height img] [0 ..< width img])"
  by (simp add: nonzero_def List.product_concat_map filter_concat filter_map comp_def)

lemma distinct_nonzero: "distinct (nonzero img)"
  by (simp add: nonzero_filter_product distinct_product)

lemma set_nonzero:
  "set (nonzero img) = {(y, x). y < height img \<and> x < width img \<and> pix img y x \<noteq> 0}"
  by (auto simp: nonzero_filter_product)

lemma zip_map_same: "zip (map f xs) (map g xs) = map (\<lambda>x. (f x, g x)) xs"
  by (induction xs) simp_all

lemma mask_select_map: "mask_select (map f ps) (map P ps) = map f (filter P ps)"
  by (induction ps) (simp_all add: mask_select_def)

subsection \<open>Warm start\<close>

text \<open>
  When the global name \<^verbatim>\<open>binary_warped\<close> is bound to a frame, the pixel sets are the
  "on" pixels of that frame that lie strictly within the margin of the prior fits, in
  row-major order.
\<close>

lemma margin_mask:
  "mask_select (map f nz)
     (map2 (\<lambda>x y. real_of_int x < y + real_of_int poly_margin \<and>
                  y - real_of_int poly_margin < real_of_int x)
        (map (\<lambda>p. int (snd p)) nz)
        (map ((\<lambda>y. a * (real_of_int y)\<^sup>2 + b * real_of_int y + c) \<circ> (\<lambda>p. int (fst p))) nz))
   = map f (filter (within_margin (a, b, c)) nz)"
  by (induction nz)
     (auto simp: mask_select_def within_margin_def polyval2_def poly_margin_def abs_less_iff)

lemma searchAroundPoly_bound:
  "searchAroundPoly (Some bw) img left_fit right_fit =
     Inr (map (\<lambda>p. int (snd p)) (filter (within_margin left_fit) (nonzero bw)),
          map (\<lambda>p. int (fst p)) (filter (within_margin left_fit) (nonzero bw)),
          map (\<lambda>p. int (snd p)) (filter (within_margin right_fit) (nonzero bw)),
          map (\<lambda>p. int (fst p)) (filter (within_margin right_fit) (nonzero bw)))"
proof -
  obtain la lb lc ra rb rc where f: "left_fit = (la, lb, lc)" "right_fit = (ra, rb, rc)"
    by (cases left_fit, cases right_fit) auto
  show ?thesis
    unfolding searchAroundPoly_def f
    by (simp add: Let_def nonzerox_of_def nonzeroy_of_def margin_mask)
qed

lemma searchAroundPoly_own_frame:
  assumes "searchAroundPoly (Some img) img left_fit right_fit = Inr (leftx, lefty, rightx, righty)"
  shows "set (zip leftx lefty) =
           {(int x, int y) | x y. y < height img \<and> x < width img \<and> pix img y x \<noteq> 0 \<and>
                                  within_margin left_fit (y, x)}"
    and "set (zip rightx righty) =
           {(int x, int y) | x y. y < height img \<and> x < width img \<and> pix img y x \<noteq> 0 \<and>
                                  within_margin right_fit (y, x)}"
  using assms
  by (auto simp: searchAroundPoly_bound zip_map_same set_nonzero image_iff)

lemma nonzero_pair_frame: "nonzero pair_frame = [(8, 1), (8, 3)]"
  by (simp add: nonzero_def pair_frame_def upt_0_9 upt_0_4)

text \<open>
  C3. The specification speaks of the "on" pixels of the frame given to the warm-start search.
  \<open>searchAroundPoly\<close> does not read that frame but the global \<^verbatim>\<open>binary_warped\<close>: given
  the example frame (pixels at rows 6, 7 and 8) it raises NameError when the global is
  unbound, as in the notebook, and returns the two pixels of another frame when the
  global is bound to that frame.
\<close>

theorem searchAroundPoly_ignores_its_frame:
  "searchAroundPoly None curve_frame (0, 0, 1) (0, 0, 3) = Inl NameError \<and>
   searchAroundPoly (Some pair_frame) curve_frame (0, 0, 1) (0, 0, 3) =
     Inr ([1, 3], [8, 8], [1, 3], [8, 8]) \<and>
   nonzero curve_frame = [(6, 0), (7, 1), (8, 3)]"
  by (simp add: searchAroundPoly_bound nonzero_pair_frame nonzero_curve_frame within_margin_def
      polyval2_def)
     (simp add: searchAroundPoly_def)

lemma warm_start_unbound_global:
  assumes "cells h image_ref = Some (Gray img)"
    and "\<not> (left_fit = (0, 0, 0) \<and> right_fit = (0, 0, 0))"
    and "g_binary_warped g = None"
  shows "detectLane polyfit fillPoly g h image_ref left_fit right_fit = (Inl NameError, h)"
  using assms
  by (auto simp: detectLane_def detectLane_measure_def lookup_binary_warped_def
      searchAroundPoly_def rbind_def)


subsection \<open>Cold start: recentring a window\<close>

lemma take_filter_nth:
  "map (\<lambda>i. ps ! i) (filter (\<lambda>i. Q (ps ! i)) [0 ..< length ps]) = filter Q ps"
proof -
  have "filter Q ps = filter Q (map (\<lambda>i. ps ! i) [0 ..< length ps])"
    by (simp add: map_nth)
  also have "\<dots> = map (\<lambda>i. ps ! i) (filter (\<lambda>i. Q (ps ! i)) [0 ..< length ps])"
    by (simp add: filter_map comp_def)
  finally show ?thesis by simp
qed

lemma good_inds_nonzero:
  "good_inds (nonzeroy_of img) (nonzerox_of img) yl yh xl xh =
     filter (\<lambda>i. (\<lambda>p. int (fst p) < yh \<and> yl \<le> int (fst p) \<and> int (snd p) < xh \<and> xl \<le> int (snd p))
                  (nonzero img ! i))
       [0 ..< length (nonzero img)]"
  by (auto simp: good_inds_def nonzeroy_of_def nonzerox_of_def intro!: filter_cong)

lemma good_pixels:
  "map (\<lambda>i. nonzero img ! i) (good_inds (nonzeroy_of img) (nonzerox_of img) yl yh xl xh) =
     filter (\<lambda>p. int (fst p) < yh \<and> yl \<le> int (fst p) \<and> int (snd p) < xh \<and> xl \<le> int (snd p))
       (nonzero img)"
  unfolding good_inds_nonzero by (rule take_filter_nth)

lemma good_inds_in_range:
  "i \<in> set (good_inds (nonzeroy_of img) (nonzerox_of img) yl yh xl xh) \<Longrightarrow>
   i < length (nonzero img)"
  by (simp add: good_inds_def nonzeroy_of_def)

lemma good_columns:
  "take_inds (nonzerox_of img) (good_inds (nonzeroy_of img) (nonzerox_of img) yl yh xl xh) =
     map (\<lambda>p. int (snd p))
       (filter (\<lambda>p. int (fst p) < yh \<and> yl \<le> int (fst p) \<and> int (snd p) < xh \<and> xl \<le> int (snd p))
          (nonzero img))"
proof -
  have "take_inds (nonzerox_of img) (good_inds (nonzeroy_of img) (nonzerox_of img) yl yh xl xh) =
        map (\<lambda>p. int (snd p))
          (map (\<lambda>i. nonzero img ! i)
             (good_inds (nonzeroy_of img) (nonzerox_of img) yl yh xl xh))"
    using good_inds_in_range [of _ img yl yh xl xh]
    by (simp add: take_inds_def nonzerox_of_def)
  then show ?thesis by (simp only: good_pixels)
qed

lemma good_count:
  "length (good_inds (nonzeroy_of img) (nonzerox_of img) yl yh xl xh) =
     length (filter (\<lambda>p. int (fst p) < yh \<and> yl \<le> int (fst p) \<and> int (snd p) < xh \<and> xl \<le> int (snd p))
               (nonzero img))"
  using arg_cong [OF good_pixels [of img yl yh xl xh], of length] by simp

lemma set_window_filter:
  "set (filter (\<lambda>p. int (fst p) < yh \<and> yl \<le> int (fst p) \<and> int (snd p) < xh \<and> xl \<le> int (snd p))
          (nonzero img)) = window_pixels img yl yh xl xh"
  by (auto simp: set_nonzero window_pixels_def)

lemma window_count:
  "length (good_inds (nonzeroy_of img) (nonzerox_of img) yl yh xl xh) =
     card (window_pixels img yl yh xl xh)"
proof -
  have "distinct (filter (\<lambda>p. int (fst p) < yh \<and> yl \<le> int (fst p) \<and> int (snd p) < xh \<and>
                              xl \<le> int (snd p)) (nonzero img))"
    by (simp add: distinct_nonzero)
  from distinct_card [OF this, unfolded set_window_filter] show ?thesis
    by (simp add: good_count)
qed

lemma int_mean_nonneg:
  assumes "\<forall>x\<in>set xs. 0 \<le> x"
  shows "int_mean xs = \<lfloor>real_of_int (sum_list xs) / real (length xs)\<rfloor>"
proof -
  have "0 \<le> sum_list xs" using assms by (simp add: sum_list_nonneg)
  then have "int_mean xs = sum_list xs div int (length xs)"
    by (simp add: int_mean_def)
  also have "\<dots> = \<lfloor>real_of_int (sum_list xs) / real_of_int (int (length xs))\<rfloor>"
    by (simp only: floor_divide_of_int_eq)
  finally show ?thesis by simp
qed

lemma window_mean:
  "int_mean (take_inds (nonzerox_of img)
              (good_inds (nonzeroy_of img) (nonzerox_of img) yl yh xl xh)) =
     mean_column (window_pixels img yl yh xl xh)"
proof -
  let ?F = "filter (\<lambda>p. int (fst p) < yh \<and> yl \<le> int (fst p) \<and> int (snd p) < xh \<and>
                         xl \<le> int (snd p)) (nonzero img)"
  have d: "distinct ?F" by (simp add: distinct_nonzero)
  have s: "real_of_int (sum_list (map (\<lambda>p. int (snd p)) ?F)) =
             (\<Sum>p\<in>window_pixels img yl yh xl xh. real (snd p))"
  proof -
    have "sum_list (map (\<lambda>p. int (snd p)) ?F) = (\<Sum>p\<in>set ?F. int (snd p))"
      using d by (rule sum_list_distinct_conv_sum_set)
    then show ?thesis by (simp only: set_window_filter) simp
  qed
  have l: "length (map (\<lambda>p. int (snd p)) ?F) = card (window_pixels img yl yh xl xh)"
    using distinct_card [OF d, unfolded set_window_filter] by simp
  have "int_mean (map (\<lambda>p. int (snd p)) ?F) =
          \<lfloor>real_of_int (sum_list (map (\<lambda>p. int (snd p)) ?F)) /
            real (length (map (\<lambda>p. int (snd p)) ?F))\<rfloor>"
    by (rule int_mean_nonneg) auto
  then show ?thesis
    unfolding good_columns mean_column_def s l .
qed

text \<open>
  C6, as the code has it. In each band, a side's centre for the next band is the mean
  column of the pixels its window collected, rounded down to an integer, exactly when
  the window collected more than \<open>minpix = 30\<close> pixels; with 30 pixels or fewer the
  centre is kept. The window of band \<open>window\<close> spans the rows from
  \<open>H - (window+1) * (H div 9)\<close> up to, not including, \<open>H - window * (H div 9)\<close> and the
  80 columns on each side of the current centre.
\<close>

theorem window_recentred_above_minpix:
  "leftx_current (window_step img (nonzeroy_of img) (nonzerox_of img) s window) =
     (let P = window_pixels img
                (int (height img) - (int window + 1) * int (height img div 9))
                (int (height img) - int window * int (height img div 9))
                (leftx_current s - 80) (leftx_current s + 80)
      in if 30 < card P then mean_column P else leftx_current s) \<and>
   rightx_current (window_step img (nonzeroy_of img) (nonzerox_of img) s window) =
     (let P = window_pixels img
                (int (height img) - (int window + 1) * int (height img div 9))
                (int (height img) - int window * int (height img div 9))
                (rightx_current s - 80) (rightx_current s + 80)
      in if 30 < card P then mean_column P else rightx_current s)"
  by (simp add: window_step_def Let_def window_count window_mean nwindows_def
      window_margin_def minpix_def)


lemma thirty_frame_shape: "height thirty_frame = 9" "width thirty_frame = 64"
  by (simp_all add: thirty_frame_def)

lemma nonzero_thirty_frame: "nonzero thirty_frame = map (\<lambda>x. (8, x)) [0..<30]"
  by (simp add: nonzero_def thirty_frame_def upt_rec)

lemma histogram_bases_thirty_frame: "histogram_bases thirty_frame = Inr (0, 32)"
  by (simp add: histogram_bases_def histogram_def thirty_frame_def upt_rec argmax_def)

lemma bottom_window_thirty_frame:
  "filter (\<lambda>p. int (fst p) < 9 \<and> 8 \<le> int (fst p) \<and> int (snd p) < 80 \<and> - 80 \<le> int (snd p))
     (nonzero thirty_frame) = map (\<lambda>x. (8, x)) [0..<30]"
  by (simp add: nonzero_thirty_frame filter_map comp_def)

lemma count_thirty_frame: "card (window_pixels thirty_frame 8 9 (- 80) 80) = 30"
  unfolding set_window_filter [symmetric] bottom_window_thirty_frame
  by (simp add: card_image inj_on_def)

lemma mean_thirty_frame: "mean_column (window_pixels thirty_frame 8 9 (- 80) 80) = 14"
  unfolding window_mean [symmetric] good_columns bottom_window_thirty_frame
  by (simp add: int_mean_def upt_rec)

text \<open>
  C6, as the specification states it, fails when a window holds exactly \<open>minpix\<close> pixels. In the frame whose
  bottom row has the thirty "on" pixels of the columns 0 to 29, the left base is column 0,
  the first window collects 30 pixels with mean column 14 (14.5 before rounding), and the
  left centre after the band is still 0.
\<close>

theorem recentre_at_exactly_minpix_counterexample:
  "histogram_bases thirty_frame = Inr (0, 32) \<and>
   card (window_pixels thirty_frame 8 9 (- 80) 80) = 30 \<and>
   mean_column (window_pixels thirty_frame 8 9 (- 80) 80) = 14 \<and>
   leftx_current
     (window_step thirty_frame (nonzeroy_of thirty_frame) (nonzerox_of thirty_frame)
        \<lparr> leftx_current = 0, rightx_current = 32, left_lane_inds = [], right_lane_inds = [] \<rparr> 0)
     = 0"
  by (simp add: histogram_bases_thirty_frame count_thirty_frame mean_thirty_frame
      window_step_def Let_def window_count nwindows_def window_margin_def minpix_def
      thirty_frame_shape)


subsection \<open>Frames with too few pixels\<close>






















end
